theory Spec2Isabelle
  imports Complex_Main "HOL-Library.Word"
begin

section \<open>JavaScript values used by \<open>src/main.ts\<close>\<close>

subsection \<open>Strings\<close>

text \<open>
  A JavaScript string is a sequence of UTF-16 code units; \<open>length\<close>, \<open>slice\<close>,
  \<open>search\<close> and \<open>repeat\<close> all count code units, and a regular expression without
  the \<open>u\<close> flag matches code unit by code unit.
\<close>

type_synonym jschar = "16 word"
type_synonym jsstring = "jschar list"

definition TAB :: jschar where
  "TAB = 0x09"

definition SPACE :: jschar where
  "SPACE = 0x20"

text \<open>
  The class \<open>\s\<close> of a regular expression: ECMAScript's WhiteSpace (TAB, VT, FF, the
  space separators of Unicode, U+FEFF) and LineTerminator (LF, CR, U+2028, U+2029).
  \<open>\S\<close> is its complement.
\<close>

definition isWhiteSpace :: "jschar \<Rightarrow> bool" where
  "isWhiteSpace c =
     (c = 0x09 \<or> c = 0x0A \<or> c = 0x0B \<or> c = 0x0C \<or> c = 0x0D \<or> c = 0x20 \<or>
      c = 0xA0 \<or> c = 0x1680 \<or> (0x2000 \<le> c \<and> c \<le> 0x200A) \<or>
      c = 0x2028 \<or> c = 0x2029 \<or> c = 0x202F \<or> c = 0x205F \<or> c = 0x3000 \<or>
      c = 0xFEFF)"

text \<open>
  \<open>String.prototype.search\<close> with a one-character class: the index of the first code
  unit the class matches, counted from \<open>i\<close>, and \<open>-1\<close> when there is none.
\<close>

primrec search_from :: "(jschar \<Rightarrow> bool) \<Rightarrow> jsstring \<Rightarrow> nat \<Rightarrow> int" where
  "search_from P [] i = - 1"
| "search_from P (c # cs) i = (if P c then int i else search_from P cs (Suc i))"

text \<open>\<open>line.search(/\S/)\<close>\<close>

definition search_nonspace :: "jsstring \<Rightarrow> int" where
  "search_nonspace line = search_from (\<lambda>c. \<not> isWhiteSpace c) line 0"

text \<open>
  \<open>String.prototype.slice(start, end)\<close> on integer arguments: a negative index counts
  from the end of the string, both indices are clamped into \<open>0 .. length\<close>, and the
  result is empty when the start is not before the end.
\<close>

definition js_slice :: "jsstring \<Rightarrow> int \<Rightarrow> int \<Rightarrow> jsstring" where
  "js_slice s intStart intEnd =
     (let len = int (length s);
          lo = (if intStart < 0 then max (len + intStart) 0 else min intStart len);
          hi = (if intEnd < 0 then max (len + intEnd) 0 else min intEnd len)
      in if hi \<le> lo then [] else take (nat (hi - lo)) (drop (nat lo) s))"

subsection \<open>Numbers\<close>

text \<open>
  A JavaScript number is an IEEE double. The code below only truncates a number, tests
  it for truthiness and compares it with zero, so a finite double is represented by its
  exact rational value; \<open>+0\<close> and \<open>-0\<close> are both \<open>Finite 0\<close> (none of the operations
  used here tells them apart: both are falsy and both truncate to \<open>0\<close>).
\<close>

datatype number = NaN | PosInfinity | NegInfinity | Finite rat

datatype integer_or_infinity = Integer int | PlusInf | MinusInf

definition truncate_number :: "rat \<Rightarrow> int" where
  "truncate_number q = (if q < 0 then - \<lfloor>- q\<rfloor> else \<lfloor>q\<rfloor>)"

text \<open>The abstract operation ToIntegerOrInfinity of ECMAScript.\<close>

fun ToIntegerOrInfinity :: "number \<Rightarrow> integer_or_infinity" where
  "ToIntegerOrInfinity NaN = Integer 0"
| "ToIntegerOrInfinity PosInfinity = PlusInf"
| "ToIntegerOrInfinity NegInfinity = MinusInf"
| "ToIntegerOrInfinity (Finite q) = Integer (truncate_number q)"

text \<open>ToBoolean on a number: \<open>NaN\<close> and the zeros are falsy.\<close>

fun ToBoolean :: "number \<Rightarrow> bool" where
  "ToBoolean NaN = False"
| "ToBoolean (Finite q) = (q \<noteq> 0)"
| "ToBoolean PosInfinity = True"
| "ToBoolean NegInfinity = True"

text \<open>The operator \<open>a || b\<close> on numbers.\<close>

definition logical_or :: "number \<Rightarrow> number \<Rightarrow> number" where
  "logical_or a b = (if ToBoolean a then a else b)"

subsection \<open>Exceptions\<close>

datatype error = RangeError

subsection \<open>The maximum length of a string\<close>

text \<open>
  ECMAScript bounds the length of a string by \<open>2^53 - 1\<close> code units, and every engine
  has a smaller bound of its own (\<open>2^29 - 24\<close> in V8 is one): an operation whose result
  would be longer throws a RangeError ("Invalid string length"). The bound of the engine
  is not part of the program; the functions that build strings take it as the parameter
  \<open>maxLength\<close>.
\<close>

definition ECMAScript_maxLength :: nat where
  "ECMAScript_maxLength = 2 ^ 53 - 1"

definition V8_maxLength :: nat where
  "V8_maxLength = 2 ^ 29 - 24"

text \<open>
  \<open>String.prototype.repeat(count)\<close>: the count is converted with ToIntegerOrInfinity; a
  negative or infinite count throws a RangeError ("Invalid count value"), and so does a
  count whose result would be longer than a string can be; otherwise the result is
  that many copies of the string.
\<close>

definition repeat :: "nat \<Rightarrow> jsstring \<Rightarrow> number \<Rightarrow> error + jsstring" where
  "repeat maxLength s count =
     (case ToIntegerOrInfinity count of
        PlusInf \<Rightarrow> Inl RangeError
      | MinusInf \<Rightarrow> Inl RangeError
      | Integer n \<Rightarrow>
          if n < 0 then Inl RangeError
          else if min maxLength ECMAScript_maxLength < nat n * length s then Inl RangeError
          else Inr (concat (replicate (nat n) s)))"

section \<open>The settings store\<close>

record IndentSettings =
  useTab :: bool
  spaceCount :: number

text \<open>The defaults.\<close>

definition settings :: IndentSettings where
  "settings = \<lparr>useTab = False, spaceCount = Finite 4\<rparr>"

text \<open>
  The listeners of the two inputs. \<open>valueAsNumber\<close> and \<open>checked\<close> are what the input
  element holds when the event fires; \<open>valueAsNumber\<close> is \<open>NaN\<close> when the element's text
  is not a number.
\<close>

definition spaceInput_listener :: "number \<Rightarrow> IndentSettings \<Rightarrow> IndentSettings" where
  "spaceInput_listener valueAsNumber s = s\<lparr>spaceCount := logical_or valueAsNumber (Finite 0)\<rparr>"

definition tabCheckbox_listener :: "bool \<Rightarrow> IndentSettings \<Rightarrow> IndentSettings" where
  "tabCheckbox_listener checked s = s\<lparr>useTab := checked\<rparr>"

section \<open>The two string functions\<close>

text \<open>
  \<open>maxLength\<close> is the engine's bound on strings, for the call of \<open>repeat\<close>.
\<close>

definition getIndentText :: "nat \<Rightarrow> bool \<Rightarrow> number \<Rightarrow> error + jsstring" where
  "getIndentText maxLength useTab' spaceCount' =
     (if useTab' then Inr [TAB] else repeat maxLength [SPACE] spaceCount')"

definition getExistingIndent :: "jsstring \<Rightarrow> jsstring" where
  "getExistingIndent line = js_slice line 0 (search_nonspace line)"

text \<open>
  The specification's reading of \<open>getExistingIndent\<close>: the prefix of the line before its
  first non-whitespace character, the whole line when there is none.
\<close>

definition leading_whitespace :: "jsstring \<Rightarrow> jsstring" where
  "leading_whitespace line = takeWhile isWhiteSpace line"

section \<open>The editor framework, as far as the commands use it\<close>

text \<open>
  The document model, the transactions and the view belong to the editing framework.
  The commands read three things of a selection: its bounds \<open>from\<close> and \<open>to\<close>, and the
  text of the block the selection starts in (\<open>$from.parent.textContent\<close>).
\<close>

record Selection =
  sel_from :: int
  sel_to :: int
  from_parent_textContent :: jsstring

text \<open>
  An editor state is immutable; \<open>state.tr\<close> is a fresh transaction on it. Transactions
  are the framework's: \<open>'tr\<close> is their type, and the two members the commands use are
  parameters. \<open>insertText tr text from to\<close> is \<open>tr.insertText(text, from, to)\<close>, the last
  argument being \<open>None\<close> when the call leaves it out.
\<close>

record 'tr EditorState =
  selection :: Selection
  tr :: 'tr

record 'tr Transaction_members =
  tr_selection :: "'tr \<Rightarrow> Selection"
  insertText :: "'tr \<Rightarrow> jsstring \<Rightarrow> int \<Rightarrow> int option \<Rightarrow> 'tr"

text \<open>
  A dispatch applies a transaction: it changes the world \<open>'w\<close> outside the command (the
  view and its current state). The argument \<open>dispatch\<close> of a command is optional.
\<close>

type_synonym ('tr, 'w) Dispatch = "'tr \<Rightarrow> 'w \<Rightarrow> 'w"

text \<open>
  The commands of the framework that \<open>enterCommand\<close> falls back on are imported, not
  defined here. Such a command is called with a state, a dispatch and the view, and acts
  on the world only through the dispatch it is handed; it is represented by what it does
  when a dispatch is supplied: the transactions it hands to that dispatch, in order,
  and the boolean it returns. (A command of the framework that throws is outside this
  model, as is an exception of \<open>insertText\<close>.)
\<close>

type_synonym ('tr, 'v) Command = "'tr EditorState \<Rightarrow> 'v \<Rightarrow> 'tr list \<times> bool"

record ('tr, 'v) Commands =
  newlineInCode :: "('tr, 'v) Command"
  createParagraphNear :: "('tr, 'v) Command"
  liftEmptyBlock :: "('tr, 'v) Command"
  splitBlock :: "('tr, 'v) Command"

definition enterCommands :: "('tr, 'v) Commands \<Rightarrow> ('tr, 'v) Command list" where
  "enterCommands C = [newlineInCode C, createParagraphNear C, liftEmptyBlock C, splitBlock C]"

section \<open>The tab command\<close>

text \<open>
  \<open>s\<close> is the settings store as it is when the key is pressed, \<open>maxLength\<close> the
  engine's bound on strings. An exception of \<open>getIndentText\<close> leaves the command before
  it returns.
\<close>

definition tabCommand ::
  "nat \<Rightarrow> IndentSettings \<Rightarrow> 'tr Transaction_members \<Rightarrow> 'tr EditorState
     \<Rightarrow> ('tr, 'w) Dispatch option \<Rightarrow> 'w \<Rightarrow> error + (bool \<times> 'w)" where
  "tabCommand maxLength s T state dispatch w =
     (case getIndentText maxLength (useTab s) (spaceCount s) of
        Inl e \<Rightarrow> Inl e
      | Inr text \<Rightarrow>
          Inr (True,
               case dispatch of
                 None \<Rightarrow> w
               | Some d \<Rightarrow>
                   d (insertText T (tr state) text (sel_from (selection state))
                        (Some (sel_to (selection state)))) w))"

section \<open>The enter command\<close>

text \<open>
  What a run of \<open>enterCommand\<close> can touch: its local variable \<open>resultTr\<close> and the world.
  \<open>invoked\<close> is not in the source: it lists the indices \<open>i\<close> of the calls
  \<open>enterCommands[i](state, customDispatch, view)\<close> made so far, so that a statement can
  say which commands were called.
\<close>

record ('tr, 'w) machine =
  resultTr :: "'tr option"
  world :: 'w
  invoked :: "nat list"

definition customDispatch :: "'tr \<Rightarrow> ('tr, 'w) machine \<Rightarrow> ('tr, 'w) machine" where
  "customDispatch t m = m\<lparr>resultTr := Some t\<rparr>"

text \<open>
  The call \<open>enterCommands[i](state, customDispatch, view)\<close>: every transaction the
  command dispatches goes through \<open>customDispatch\<close>.
\<close>

definition call_command ::
  "('tr, 'v) Command \<Rightarrow> nat \<Rightarrow> 'tr EditorState \<Rightarrow> 'v \<Rightarrow> ('tr, 'w) machine
     \<Rightarrow> bool \<times> ('tr, 'w) machine" where
  "call_command c i state view m =
     (snd (c state view), fold customDispatch (fst (c state view)) (m\<lparr>invoked := invoked m @ [i]\<rparr>))"

text \<open>The \<open>for\<close> loop, from index \<open>i\<close> on.\<close>

function enter_loop ::
  "('tr, 'v) Command list \<Rightarrow> 'tr EditorState \<Rightarrow> 'v \<Rightarrow> nat \<Rightarrow> ('tr, 'w) machine
     \<Rightarrow> ('tr, 'w) machine" where
  "enter_loop cmds state view i m =
     (if i < length cmds
      then (let r = call_command (cmds ! i) i state view m
            in if fst r then snd r else enter_loop cmds state view (Suc i) (snd r))
      else m)"
  by pat_completeness auto
termination
  by (relation "measure (\<lambda>(cmds, state, view, i, m). length cmds - i)") auto

declare enter_loop.simps [simp del]

text \<open>The first part of \<open>enterCommand\<close>: the declarations and the loop.\<close>

definition enter_trial ::
  "('tr, 'v) Commands \<Rightarrow> 'tr EditorState \<Rightarrow> 'v \<Rightarrow> 'w \<Rightarrow> ('tr, 'w) machine" where
  "enter_trial C state view w =
     enter_loop (enterCommands C) state view 0 \<lparr>resultTr = None, world = w, invoked = []\<rparr>"

text \<open>
  The whole command. Its result is the boolean it returns together with the machine at
  the return: the world it leaves and the calls it has made. The loop has not touched
  the world, so the real dispatch acts on \<open>world m\<close>. The call of \<open>console.log\<close> has no
  part in the result and is left out.
\<close>

definition enterCommand ::
  "('tr, 'v) Commands \<Rightarrow> 'tr Transaction_members \<Rightarrow> 'tr EditorState \<Rightarrow> ('tr, 'w) Dispatch option
     \<Rightarrow> 'v \<Rightarrow> 'w \<Rightarrow> bool \<times> ('tr, 'w) machine" where
  "enterCommand C T state dispatch view w =
     (let m = enter_trial C state view w
      in case resultTr m of
           None \<Rightarrow> (True, m)
         | Some finalTr \<Rightarrow>
             (case dispatch of
                None \<Rightarrow> (True, m)
              | Some d \<Rightarrow>
                  (let line = from_parent_textContent (selection state);
                       to_pos = sel_to (tr_selection T finalTr)
                   in (True,
                       m\<lparr>world := d (insertText T finalTr (getExistingIndent line) to_pos None)
                                     (world m)\<rparr>))))"

section \<open>A concrete editor for evaluating the commands\<close>

text \<open>
  Transactions written as the calls that built them: the fresh transaction of the
  state, the transaction that \<open>splitBlock\<close> dispatches, and \<open>insertText\<close> on a transaction.
  The document is one paragraph holding two spaces, with the cursor at its end
  (position 3); after the split the cursor is at the start of the new paragraph
  (position 5).
\<close>

datatype tr_term = StateTr | SplitTr | InsertText tr_term jsstring int "int option"

definition cursor :: "int \<Rightarrow> Selection" where
  "cursor p = \<lparr>sel_from = p, sel_to = p, from_parent_textContent = []\<rparr>"

primrec tr_term_selection :: "tr_term \<Rightarrow> Selection" where
  "tr_term_selection StateTr = cursor 3"
| "tr_term_selection SplitTr = cursor 5"
| "tr_term_selection (InsertText t text p q) = cursor (p + int (length text))"

definition example_members :: "tr_term Transaction_members" where
  "example_members = \<lparr>tr_selection = tr_term_selection, insertText = InsertText\<rparr>"

definition example_state :: "tr_term EditorState" where
  "example_state =
     \<lparr>selection = \<lparr>sel_from = 3, sel_to = 3, from_parent_textContent = [SPACE, SPACE]\<rparr>,
      tr = StateTr\<rparr>"

text \<open>The same document with both spaces selected.\<close>

definition example_state_range :: "tr_term EditorState" where
  "example_state_range =
     \<lparr>selection = \<lparr>sel_from = 1, sel_to = 3, from_parent_textContent = [SPACE, SPACE]\<rparr>,
      tr = StateTr\<rparr>"

text \<open>A command that does not apply: it dispatches nothing and returns \<open>false\<close>.\<close>

definition failing :: "(tr_term, unit) Command" where
  "failing state view = ([], False)"

text \<open>
  In a paragraph that is neither code nor empty and with a text cursor, the first three
  fallback commands do not apply and \<open>splitBlock\<close> does.
\<close>

definition example_commands :: "(tr_term, unit) Commands" where
  "example_commands =
     \<lparr>newlineInCode = failing, createParagraphNear = failing, liftEmptyBlock = failing,
      splitBlock = (\<lambda>state view. ([SplitTr], True))\<rparr>"

definition failing_commands :: "(tr_term, unit) Commands" where
  "failing_commands =
     \<lparr>newlineInCode = failing, createParagraphNear = failing, liftEmptyBlock = failing,
      splitBlock = failing\<rparr>"

text \<open>A dispatch that records the transactions it is given; the world is that record.\<close>

definition recording :: "(tr_term, tr_term list) Dispatch" where
  "recording t w = w @ [t]"

section \<open>Properties of the string functions\<close>

subsection \<open>\<open>search\<close> and \<open>slice\<close>\<close>

lemma search_from_none: "\<forall>c\<in>set cs. \<not> P c \<Longrightarrow> search_from P cs i = - 1"
  by (induction cs arbitrary: i) auto

lemma search_from_first:
  "\<exists>c\<in>set cs. P c \<Longrightarrow>
     search_from P cs i = int i + int (length (takeWhile (\<lambda>c. \<not> P c) cs))"
proof (induction cs arbitrary: i)
  case Nil
  then show ?case by simp
next
  case (Cons a cs)
  show ?case
  proof (cases "P a")
    case True
    then show ?thesis by simp
  next
    case False
    with Cons.prems have "\<exists>c\<in>set cs. P c" by auto
    from Cons.IH [OF this, of "Suc i"] False show ?thesis by simp
  qed
qed

lemma js_slice_prefix: "0 \<le> n \<Longrightarrow> js_slice s 0 n = take (nat n) s"
  by (auto simp: js_slice_def Let_def min_def)

lemma js_slice_minus_one: "js_slice s 0 (- 1) = butlast s"
proof -
  have "nat (int (length s) - 1) = length s - 1" by simp
  then show ?thesis
    by (cases s) (simp_all add: js_slice_def Let_def max_def butlast_conv_take del: butlast.simps)
qed

subsection \<open>\<open>getExistingIndent\<close>\<close>

text \<open>
  On a line that has a non-whitespace character, \<open>search\<close> finds it and the slice is the
  leading whitespace.
\<close>

lemma getExistingIndent_nonspace:
  assumes "\<exists>c\<in>set line. \<not> isWhiteSpace c"
  shows "getExistingIndent line = leading_whitespace line"
proof -
  have "search_nonspace line = int (length (takeWhile isWhiteSpace line))"
    using search_from_first [of line "\<lambda>c. \<not> isWhiteSpace c" 0] assms
    by (simp add: search_nonspace_def)
  then have "getExistingIndent line = take (length (takeWhile isWhiteSpace line)) line"
    by (simp add: getExistingIndent_def js_slice_prefix)
  then show ?thesis
    by (simp only: leading_whitespace_def takeWhile_eq_take [symmetric])
qed

text \<open>
  On a line without one, \<open>search\<close> returns \<open>-1\<close>, which \<open>slice\<close> reads as "up to the
  last character": the result is the line without its last character.
\<close>

lemma getExistingIndent_all_space:
  assumes "\<forall>c\<in>set line. isWhiteSpace c"
  shows "getExistingIndent line = butlast line"
  using assms search_from_none [of line "\<lambda>c. \<not> isWhiteSpace c" 0]
  by (simp add: getExistingIndent_def search_nonspace_def js_slice_minus_one)

lemma leading_whitespace_all_space:
  "\<forall>c\<in>set line. isWhiteSpace c \<Longrightarrow> leading_whitespace line = line"
  by (simp add: leading_whitespace_def)

text \<open>
  C1 (fails on the code). The claim: \<open>getExistingIndent line\<close> is the leading whitespace of
  \<open>line\<close>, and the entire line when the line has no non-whitespace character. On the
  line of two spaces the code returns one space, while the leading whitespace is the
  line itself.
\<close>

theorem getExistingIndent_two_spaces:
  "getExistingIndent [SPACE, SPACE] = [SPACE] \<and> leading_whitespace [SPACE, SPACE] = [SPACE, SPACE]"
  by (simp add: getExistingIndent_def leading_whitespace_def js_slice_def search_nonspace_def
      isWhiteSpace_def SPACE_def)

subsection \<open>\<open>getIndentText\<close>\<close>

lemma truncate_number_of_nat [simp]: "truncate_number (of_nat n) = int n"
  by (simp add: truncate_number_def)

lemma truncate_number_fraction: "- 1 < q \<Longrightarrow> q < 1 \<Longrightarrow> truncate_number q = 0"
  unfolding truncate_number_def by (auto simp: floor_eq_iff)

lemma truncate_number_nonneg: "- 1 < q \<Longrightarrow> 0 \<le> truncate_number q"
  unfolding truncate_number_def by (auto simp: le_floor_iff floor_le_iff)

lemma replicate_2: "replicate 2 x = [x, x]"
  by (simp add: numeral_eq_Suc)

lemma replicate_4: "replicate 4 x = [x, x, x, x]"
  by (simp add: numeral_eq_Suc)

lemma repeat_space:
  "0 \<le> n \<Longrightarrow> nat n \<le> min maxLength ECMAScript_maxLength \<Longrightarrow>
     repeat maxLength [SPACE] (Finite (of_int n)) = Inr (replicate (nat n) SPACE)"
  by (auto simp: repeat_def truncate_number_def)

text \<open>
  A count of \<open>2^53\<close> is beyond the bound of every engine.
\<close>

lemma getIndentText_beyond_every_bound:
  "getIndentText maxLength False (Finite (2 ^ 53)) = Inl RangeError"
  by (simp add: getIndentText_def repeat_def truncate_number_def ECMAScript_maxLength_def)

text \<open>
  C4 (fails on the code). The claim: for every non-negative integer \<open>spaceCount\<close>,
  \<open>getIndentText false spaceCount\<close> is the string of exactly \<open>spaceCount\<close> spaces. A
  string of that many spaces must exist: in V8 the call \<open>" ".repeat(536870889)\<close>, one
  above its bound, throws a RangeError, and so does \<open>" ".repeat(2 ** 53)\<close> under the
  largest bound ECMAScript allows.
\<close>

theorem getIndentText_too_long_throws:
  "getIndentText V8_maxLength False (Finite 536870889) = Inl RangeError \<and>
   getIndentText V8_maxLength False (Finite 536870889) \<noteq> Inr (replicate 536870889 SPACE) \<and>
   getIndentText ECMAScript_maxLength False (Finite 9007199254740992) = Inl RangeError"
  by (simp add: getIndentText_def repeat_def truncate_number_def ECMAScript_maxLength_def
      V8_maxLength_def)

text \<open>
  C4, amended. For every boolean \<open>useTab\<close> and every non-negative integer \<open>spaceCount\<close>
  that is not above the engine's maximum string length (nor above \<open>2^53 - 1\<close>),
  \<open>getIndentText\<close> returns the one-character string of a tab when \<open>useTab\<close> is true, and
  the string of exactly \<open>spaceCount\<close> spaces otherwise; when \<open>useTab\<close> is true it returns
  the tab for every \<open>spaceCount\<close>.
\<close>

theorem getIndentText_tab_or_spaces:
  "getIndentText maxLength True spaceCount' = Inr [TAB] \<and>
   (n \<le> min maxLength ECMAScript_maxLength \<longrightarrow>
      getIndentText maxLength False (Finite (of_nat n)) = Inr (replicate n SPACE))"
  using repeat_space [of "int n" maxLength]
  by (simp add: getIndentText_def)

theorem getIndentText_tab_or_spaces_witness:
  "(4 :: nat) \<le> min V8_maxLength ECMAScript_maxLength \<and>
   getIndentText V8_maxLength True (Finite 4) = Inr [TAB] \<and>
   getIndentText V8_maxLength False (Finite 4) = Inr [SPACE, SPACE, SPACE, SPACE]"
  using getIndentText_tab_or_spaces [of V8_maxLength "Finite 4" 4]
  by (simp add: V8_maxLength_def ECMAScript_maxLength_def replicate_4)

text \<open>
  C5 (fails on the code). The claim: \<open>getIndentText False spaceCount\<close> returns for every
  number and is the empty string when \<open>spaceCount\<close> is negative or \<open>NaN\<close>. At \<open>-1\<close>
  the call \<open>" ".repeat(-1)\<close> throws a RangeError.
\<close>

theorem getIndentText_minus_one_throws:
  "getIndentText V8_maxLength False (Finite (- 1)) = Inl RangeError \<and>
   getIndentText V8_maxLength False (Finite (- 1)) \<noteq> Inr []"
  by (simp add: getIndentText_def repeat_def truncate_number_def)

text \<open>
  C5, amended. \<open>getIndentText False spaceCount\<close> returns the empty string when
  \<open>spaceCount\<close> is \<open>NaN\<close> and when it lies strictly between \<open>-1\<close> and \<open>1\<close> (it then
  truncates to zero); for every finite \<open>spaceCount\<close> above \<open>-1\<close> that truncates to no
  more than the engine's maximum string length (and no more than \<open>2^53 - 1\<close>) it
  returns the string of as many spaces as \<open>spaceCount\<close> truncates to.
\<close>

theorem getIndentText_returns:
  "getIndentText maxLength False NaN = Inr [] \<and>
   (- 1 < q \<and> q < 1 \<longrightarrow> getIndentText maxLength False (Finite q) = Inr []) \<and>
   (- 1 < q \<and> nat (truncate_number q) \<le> min maxLength ECMAScript_maxLength \<longrightarrow>
      getIndentText maxLength False (Finite q) =
        Inr (replicate (nat (truncate_number q)) SPACE))"
  using truncate_number_nonneg [of q]
  by (auto simp: getIndentText_def repeat_def truncate_number_fraction)

theorem getIndentText_returns_witness:
  "- 1 < (- 1 / 2 :: rat) \<and> (- 1 / 2 :: rat) < 1 \<and>
   nat (truncate_number (- 1 / 2)) \<le> min V8_maxLength ECMAScript_maxLength \<and>
   getIndentText V8_maxLength False (Finite (- 1 / 2)) = Inr [] \<and>
   getIndentText V8_maxLength False (Finite (5 / 2)) = Inr [SPACE, SPACE]"
proof -
  have t: "truncate_number (- (1 / 2)) = 0" "truncate_number (5 / 2) = 2"
    unfolding truncate_number_def by (simp_all add: floor_eq_iff)
  from getIndentText_returns [of V8_maxLength "- 1 / 2"]
    getIndentText_returns [of V8_maxLength "5 / 2"]
  show ?thesis
    by (simp add: t V8_maxLength_def ECMAScript_maxLength_def replicate_2)
qed

section \<open>Properties of the settings store\<close>

text \<open>
  C10. After the listener of the space-count input has run, \<open>spaceCount\<close> is not \<open>NaN\<close>:
  a value that is not a number, or is zero, is stored as \<open>0\<close>, and every other number,
  negative ones included, is stored as it is.
\<close>

theorem spaceInput_listener_spaceCount:
  "spaceCount (spaceInput_listener v s) \<noteq> NaN \<and>
   spaceCount (spaceInput_listener v s) = (if v = NaN \<or> v = Finite 0 then Finite 0 else v)"
  by (cases v) (auto simp: spaceInput_listener_def logical_or_def)

section \<open>Properties of the tab command\<close>

lemma tabCommand_returns:
  "getIndentText maxLength (useTab s) (spaceCount s) = Inr text \<Longrightarrow>
     fst (projr (tabCommand maxLength s T state dispatch w)) \<and>
     tabCommand maxLength s T state None w = Inr (True, w)"
  by (simp add: tabCommand_def split: option.splits)

text \<open>
  C8. \<open>tabCommand\<close> replaces the whole selection, from its start to its end, by the
  indent text of the current settings: with a dispatch, and the indent text computed, the
  transaction it dispatches is \<open>state.tr.insertText(text, from, to)\<close> on the bounds of
  the selection of the state.
\<close>

theorem tabCommand_replaces_selection:
  "getIndentText maxLength (useTab s) (spaceCount s) = Inr text \<Longrightarrow>
     tabCommand maxLength s T state (Some d) w =
       Inr (True,
            d (insertText T (tr state) text (sel_from (selection state))
                 (Some (sel_to (selection state)))) w)"
  by (simp add: tabCommand_def)

theorem tabCommand_replaces_selection_witness:
  "getIndentText V8_maxLength (useTab settings) (spaceCount settings) =
     Inr [SPACE, SPACE, SPACE, SPACE] \<and>
   tabCommand V8_maxLength settings example_members example_state_range (Some recording) [] =
     Inr (True, [InsertText StateTr [SPACE, SPACE, SPACE, SPACE] 1 (Some 3)])"
proof -
  have h: "getIndentText V8_maxLength (useTab settings) (spaceCount settings) =
      Inr [SPACE, SPACE, SPACE, SPACE]"
    by (simp add: settings_def getIndentText_def repeat_def truncate_number_def replicate_4
        V8_maxLength_def ECMAScript_maxLength_def)
  from tabCommand_replaces_selection
         [OF h, of example_members example_state_range recording "[]"] h
  show ?thesis
    by (simp add: example_members_def example_state_range_def recording_def)
qed

text \<open>
  C9 (fails on the code). The claim: \<open>tabCommand\<close> returns \<open>true\<close> for every state and
  every dispatch. When the settings hold \<open>useTab = false\<close> and \<open>spaceCount = -1\<close> (the
  listener of the space-count input stores a negative number as it is), the call of
  \<open>getIndentText\<close> throws and \<open>tabCommand\<close> returns nothing.
\<close>

theorem tabCommand_negative_spaceCount_throws:
  "tabCommand maxLength (spaceInput_listener (Finite (- 1)) settings) T state dispatch w =
     Inl RangeError"
  by (simp add: tabCommand_def spaceInput_listener_def logical_or_def settings_def
      getIndentText_def repeat_def truncate_number_def)

section \<open>Properties of the enter command\<close>

subsection \<open>The capturing dispatch and the loop\<close>

lemma world_fold_customDispatch [simp]: "world (fold customDispatch ts m) = world m"
  by (induction ts arbitrary: m) (simp_all add: customDispatch_def)

lemma invoked_fold_customDispatch [simp]: "invoked (fold customDispatch ts m) = invoked m"
  by (induction ts arbitrary: m) (simp_all add: customDispatch_def)

lemma resultTr_fold_customDispatch:
  "resultTr (fold customDispatch ts m) = (if ts = [] then resultTr m else Some (last ts))"
  by (induction ts arbitrary: m) (simp_all add: customDispatch_def)

lemma world_call_command [simp]: "world (snd (call_command c i state view m)) = world m"
  by (simp add: call_command_def)

lemma invoked_call_command [simp]:
  "invoked (snd (call_command c i state view m)) = invoked m @ [i]"
  by (simp add: call_command_def)

lemma fst_call_command [simp]: "fst (call_command c i state view m) = snd (c state view)"
  by (simp add: call_command_def)

lemma resultTr_call_command:
  "resultTr (snd (call_command c i state view m)) =
     (if fst (c state view) = [] then resultTr m else Some (last (fst (c state view))))"
  by (simp add: call_command_def resultTr_fold_customDispatch)

text \<open>The loop leaves the world as it is.\<close>

lemma world_enter_loop: "world (enter_loop cmds state view i m) = world m"
proof (induction cmds state view i m rule: enter_loop.induct)
  case (1 cmds state view i m)
  show ?case
  proof (cases "i < length cmds")
    case False
    then show ?thesis by (simp add: enter_loop.simps)
  next
    case True
    show ?thesis
    proof (cases "snd ((cmds ! i) state view)")
      case True
      with \<open>i < length cmds\<close> show ?thesis
        by (subst enter_loop.simps) (simp add: Let_def)
    next
      case False
      with \<open>i < length cmds\<close> "1.IH" [OF \<open>i < length cmds\<close> refl] show ?thesis
        by (subst enter_loop.simps) (simp add: Let_def)
    qed
  qed
qed

text \<open>
  The calls the loop makes from index \<open>i\<close> on: the commands that fail, in order, and the
  first one that succeeds, if there is one.
\<close>

lemma invoked_enter_loop:
  "invoked (enter_loop cmds state view i m) =
     invoked m @
       take (Suc (length (takeWhile (\<lambda>c. \<not> snd (c state view)) (drop i cmds))))
         [i..<length cmds]"
proof (induction cmds state view i m rule: enter_loop.induct)
  case (1 cmds state view i m)
  show ?case
  proof (cases "i < length cmds")
    case False
    then show ?thesis by (simp add: enter_loop.simps)
  next
    case True
    then have d: "drop i cmds = cmds ! i # drop (Suc i) cmds"
      by (simp add: Cons_nth_drop_Suc)
    from True have u: "[i..<length cmds] = i # [Suc i..<length cmds]"
      by (simp add: upt_conv_Cons)
    show ?thesis
    proof (cases "snd ((cmds ! i) state view)")
      case True
      with \<open>i < length cmds\<close> show ?thesis
        by (subst enter_loop.simps) (simp add: Let_def d u)
    next
      case False
      with \<open>i < length cmds\<close> "1.IH" [OF \<open>i < length cmds\<close> refl] show ?thesis
        by (subst enter_loop.simps) (simp add: Let_def d u)
    qed
  qed
qed

text \<open>
  When the first command that succeeds dispatches, \<open>resultTr\<close> holds the last transaction
  it dispatched.
\<close>

lemma resultTr_enter_loop_first_success:
  assumes "k < length cmds" and "i \<le> k"
    and "\<forall>j. i \<le> j \<and> j < k \<longrightarrow> \<not> snd ((cmds ! j) state view)"
    and "snd ((cmds ! k) state view)"
    and "fst ((cmds ! k) state view) \<noteq> []"
  shows "resultTr (enter_loop cmds state view i m) = Some (last (fst ((cmds ! k) state view)))"
  using assms
proof (induction cmds state view i m rule: enter_loop.induct)
  case (1 cmds state view i m)
  from "1.prems" have i: "i < length cmds" by simp
  show ?case
  proof (cases "i = k")
    case True
    with "1.prems" i show ?thesis
      by (subst enter_loop.simps) (simp add: Let_def resultTr_call_command)
  next
    case False
    with "1.prems" have f: "\<not> snd ((cmds ! i) state view)" and le: "Suc i \<le> k" by auto
    from "1.prems" have "\<forall>j. Suc i \<le> j \<and> j < k \<longrightarrow> \<not> snd ((cmds ! j) state view)" by auto
    with "1.IH" [OF i refl _ "1.prems"(1) le] f "1.prems" have
      "resultTr (enter_loop cmds state view (Suc i) (snd (call_command (cmds ! i) i state view m)))
         = Some (last (fst ((cmds ! k) state view)))"
      by simp
    with i f show ?thesis
      by (subst enter_loop.simps) (simp add: Let_def)
  qed
qed

lemma enter_trial_example:
  "enter_trial example_commands example_state () w =
     \<lparr>resultTr = Some SplitTr, world = w, invoked = [0, 1, 2, 3]\<rparr>"
  by (simp add: enter_trial_def enterCommands_def example_commands_def failing_def
      enter_loop.simps call_command_def customDispatch_def)

subsection \<open>What \<open>enterCommand\<close> dispatches\<close>

lemma enterCommand_dispatches:
  "resultTr (enter_trial C state view w) = Some finalTr \<Longrightarrow>
     enterCommand C T state (Some d) view w =
       (True,
        (enter_trial C state view w)
          \<lparr>world :=
             d (insertText T finalTr (getExistingIndent (from_parent_textContent (selection state)))
                  (sel_to (tr_selection T finalTr)) None) w\<rparr>)"
  by (simp add: enterCommand_def Let_def enter_trial_def world_enter_loop)

text \<open>
  On a line that has a non-whitespace character the inserted text is the leading
  whitespace of the line.
\<close>

lemma enterCommand_inserts_leading_whitespace:
  assumes "resultTr (enter_trial C state view w) = Some finalTr"
    and "\<exists>c\<in>set (from_parent_textContent (selection state)). \<not> isWhiteSpace c"
  shows "world (snd (enterCommand C T state (Some d) view w)) =
        d (insertText T finalTr (leading_whitespace (from_parent_textContent (selection state)))
             (sel_to (tr_selection T finalTr)) None) w"
  using enterCommand_dispatches [OF assms(1)] getExistingIndent_nonspace [OF assms(2)]
  by simp

text \<open>
  C2 (fails on the code). The claim: when a fallback command succeeds and captures a
  transaction and a dispatch is given, \<open>enterCommand\<close> dispatches the captured
  transaction extended by the insertion of the leading whitespace of the line the cursor
  was on, at the end of the captured transaction's selection. In a paragraph of two
  spaces, \<open>splitBlock\<close> succeeds and the transaction dispatched inserts one space at
  position 5, where the leading whitespace of the line is two spaces.
\<close>

theorem enterCommand_two_spaces:
  "enterCommand example_commands example_members example_state (Some recording) () [] =
     (True,
      \<lparr>resultTr = Some SplitTr, world = [InsertText SplitTr [SPACE] 5 None],
       invoked = [0, 1, 2, 3]\<rparr>) \<and>
   leading_whitespace (from_parent_textContent (selection example_state)) = [SPACE, SPACE]"
proof -
  have "resultTr (enter_trial example_commands example_state () ([] :: tr_term list)) = Some SplitTr"
    by (simp add: enter_trial_example)
  from enterCommand_dispatches [OF this, of example_members recording]
  have "enterCommand example_commands example_members example_state (Some recording) () [] =
      (True,
       \<lparr>resultTr = Some SplitTr,
        world =
          recording
            (insertText example_members SplitTr
               (getExistingIndent (from_parent_textContent (selection example_state)))
               (sel_to (tr_selection example_members SplitTr)) None) [],
        invoked = [0, 1, 2, 3]\<rparr>)"
    by (simp add: enter_trial_example)
  then show ?thesis
    by (simp add: example_members_def example_state_def cursor_def
        recording_def getExistingIndent_def leading_whitespace_def js_slice_def
        search_nonspace_def isWhiteSpace_def SPACE_def)
qed

subsection \<open>The order of the fallback commands\<close>

lemma invoked_enterCommand:
  "invoked (snd (enterCommand C T state dispatch view w)) = invoked (enter_trial C state view w)"
  by (simp add: enterCommand_def Let_def split: option.splits)

lemma invoked_enter_trial:
  "invoked (enter_trial C state view w) =
     (if snd (newlineInCode C state view) then [0]
      else if snd (createParagraphNear C state view) then [0, 1]
      else if snd (liftEmptyBlock C state view) then [0, 1, 2]
      else [0, 1, 2, 3])"
  by (simp add: enter_trial_def enterCommands_def invoked_enter_loop upt_conv_Cons)

text \<open>
  C3. \<open>enterCommand\<close> tries \<open>newlineInCode\<close>, \<open>createParagraphNear\<close>, \<open>liftEmptyBlock\<close>
  and \<open>splitBlock\<close> in this order and stops at the first that returns \<open>true\<close>: the calls
  a run of \<open>enterCommand\<close> has made when it returns are those up to and including the
  first success, and all four when none succeeds. The first equation gives the calls
  by their index in \<open>enterCommands\<close>, the second by the command called.
\<close>

theorem enterCommand_tries_in_order:
  "invoked (snd (enterCommand C T state dispatch view w)) =
     (if snd (newlineInCode C state view) then [0]
      else if snd (createParagraphNear C state view) then [0, 1]
      else if snd (liftEmptyBlock C state view) then [0, 1, 2]
      else [0, 1, 2, 3]) \<and>
   map (\<lambda>i. enterCommands C ! i) (invoked (snd (enterCommand C T state dispatch view w))) =
     (if snd (newlineInCode C state view) then [newlineInCode C]
      else if snd (createParagraphNear C state view)
        then [newlineInCode C, createParagraphNear C]
      else if snd (liftEmptyBlock C state view)
        then [newlineInCode C, createParagraphNear C, liftEmptyBlock C]
      else [newlineInCode C, createParagraphNear C, liftEmptyBlock C, splitBlock C])"
  by (simp add: invoked_enterCommand invoked_enter_trial enterCommands_def)

subsection \<open>The result and the effects\<close>

text \<open>
  C6. \<open>enterCommand\<close> returns \<open>true\<close> for every state and every dispatch argument, given
  or not, also when every fallback command fails and no transaction is captured.
\<close>

theorem enterCommand_returns_true:
  "fst (enterCommand C T state dispatch view w) = True"
  by (simp add: enterCommand_def Let_def split: option.splits)

text \<open>
  C7. The dispatch handed to the fallback commands only records the transaction: the
  loop leaves the world as it was, whatever the commands dispatch, so the real dispatch
  has not run when the loop ends; and \<open>enterCommand\<close> as a whole leaves the world as it
  was when no dispatch is given or no transaction was captured. (The world and the
  dispatch are arbitrary: this holds in particular for a dispatch that records its
  calls.)
\<close>

theorem enterCommand_trial_no_effect:
  "world (customDispatch t m) = world m \<and>
   world (enter_trial C state view w) = w \<and>
   world (snd (enterCommand C T state None view w)) = w \<and>
   (resultTr (enter_trial C state view w) = None \<longrightarrow>
      world (snd (enterCommand C T state (Some d) view w)) = w)"
  by (simp add: enterCommand_def Let_def enter_trial_def world_enter_loop customDispatch_def
      split: option.splits)

theorem enterCommand_trial_no_effect_witness:
  "resultTr (enter_trial failing_commands example_state () ([] :: tr_term list)) = None \<and>
   world (snd (enterCommand failing_commands example_members example_state (Some recording) ()
                 [])) = []"
  using enterCommand_trial_no_effect
          [of SplitTr "\<lparr>resultTr = None, world = [] :: tr_term list, invoked = []\<rparr>"
              failing_commands example_state "()" "[]" example_members recording]
  by (simp add: enter_trial_def enterCommands_def failing_commands_def failing_def
      enter_loop.simps call_command_def)

end
